theory Spec2Isabelle
  imports Complex_Main
begin

section \<open>Python values\<close>

text \<open>
  The pipeline passes JSON documents and dictionaries built from them between its stages.
  A Python value is a JSON value or a \<open>datetime\<close>; a dictionary is an association list
  read with \<open>map_of\<close> (the first binding of a key is the one that counts). Floats are
  modelled by the rationals they denote, so comparisons are exact; the IEEE values
  \<open>nan\<close> and \<open>inf\<close> are outside the model. A \<open>datetime\<close> is represented by the
  POSIX timestamp it was decoded from.
\<close>

datatype pyval =
    PNone
  | PBool bool
  | PInt int
  | PFloat rat
  | PStr string
  | PList "pyval list"
  | PDict "(string \<times> pyval) list"
  | PDateTime rat

type_synonym pydict = "(string \<times> pyval) list"

datatype pyexn =
    KeyError
  | ValueError
  | TypeError
  | AttributeError
  | IndexError
  | OverflowError
  | Timeout
  | SQLAlchemyError
  | OtherException

text \<open>A computation that may raise: \<open>Inl\<close> carries the exception, \<open>Inr\<close> the value.\<close>

definition bindE :: "pyexn + 'a \<Rightarrow> ('a \<Rightarrow> pyexn + 'b) \<Rightarrow> pyexn + 'b" where
  "bindE m f = (case m of Inl e \<Rightarrow> Inl e | Inr x \<Rightarrow> f x)"

text \<open>\<open>bool(v)\<close>, as used by \<open>if v:\<close> and \<open>if not v:\<close>.\<close>

fun truthy :: "pyval \<Rightarrow> bool" where
  "truthy PNone = False"
| "truthy (PBool b) = b"
| "truthy (PInt i) = (i \<noteq> 0)"
| "truthy (PFloat r) = (r \<noteq> 0)"
| "truthy (PStr s) = (s \<noteq> [])"
| "truthy (PList xs) = (xs \<noteq> [])"
| "truthy (PDict d) = (d \<noteq> [])"
| "truthy (PDateTime t) = True"

text \<open>The numeric value of a number; \<open>bool\<close> is a subclass of \<open>int\<close>.\<close>

fun num_of :: "pyval \<Rightarrow> rat option" where
  "num_of (PInt i) = Some (of_int i)"
| "num_of (PFloat r) = Some r"
| "num_of (PBool b) = Some (if b then 1 else 0)"
| "num_of v = None"

text \<open>\<open>v < lo or v > hi\<close> against integer bounds: a \<open>TypeError\<close> unless \<open>v\<close> is a number.\<close>

definition outside :: "pyval \<Rightarrow> rat \<Rightarrow> rat \<Rightarrow> pyexn + bool" where
  "outside v lo hi =
     (case num_of v of None \<Rightarrow> Inl TypeError | Some x \<Rightarrow> Inr (x < lo \<or> x > hi))"

definition dget :: "pydict \<Rightarrow> string \<Rightarrow> pyval option" where
  "dget d k = map_of d k"

text \<open>\<open>v[k]\<close> for a string key \<open>k\<close>.\<close>

fun subscript :: "pyval \<Rightarrow> string \<Rightarrow> pyexn + pyval" where
  "subscript (PDict d) k = (case dget d k of None \<Rightarrow> Inl KeyError | Some v \<Rightarrow> Inr v)"
| "subscript v k = Inl TypeError"

text \<open>\<open>v.get(k, default)\<close>: only a dictionary has the method.\<close>

fun get_method :: "pyval \<Rightarrow> string \<Rightarrow> pyval \<Rightarrow> pyexn + pyval" where
  "get_method (PDict d) k dflt = Inr (case dget d k of None \<Rightarrow> dflt | Some v \<Rightarrow> v)"
| "get_method v k dflt = Inl AttributeError"

text \<open>
  \<open>v[0]\<close>. The keys of a JSON object are strings, so a dictionary never has the key \<open>0\<close>.
\<close>

fun index0 :: "pyval \<Rightarrow> pyexn + pyval" where
  "index0 (PList []) = Inl IndexError"
| "index0 (PList (x # xs)) = Inr x"
| "index0 (PStr []) = Inl IndexError"
| "index0 (PStr (c # cs)) = Inr (PStr [c])"
| "index0 (PDict d) = Inl KeyError"
| "index0 v = Inl TypeError"

text \<open>Rounding to the nearest integer, ties to the even one, as \<open>round\<close> does.\<close>

definition round_half_even :: "rat \<Rightarrow> int" where
  "round_half_even y =
     (let f = \<lfloor>y\<rfloor>; d = y - of_int f
      in if d < 1 / 2 then f
         else if d > 1 / 2 then f + 1
         else if even f then f else f + 1)"

text \<open>\<open>round(v, 2)\<close>: a float stays a float, an \<open>int\<close> or \<open>bool\<close> gives an \<open>int\<close>.\<close>

fun round2 :: "pyval \<Rightarrow> pyexn + pyval" where
  "round2 (PFloat r) = Inr (PFloat (of_int (round_half_even (r * 100)) / 100))"
| "round2 (PInt i) = Inr (PInt i)"
| "round2 (PBool b) = Inr (PInt (if b then 1 else 0))"
| "round2 v = Inl TypeError"

text \<open>
  \<open>datetime.fromtimestamp(v)\<close>: the years 1 to 9999 are representable (the bounds are those
  of a UTC local time); anything that is not a number is a \<open>TypeError\<close>.
\<close>

definition fromtimestamp :: "pyval \<Rightarrow> pyexn + pyval" where
  "fromtimestamp v =
     (case num_of v of
        None \<Rightarrow> Inl TypeError
      | Some t \<Rightarrow>
          if - 62135596800 \<le> t \<and> t < 253402300800 then Inr (PDateTime t)
          else Inl OverflowError)"

section \<open>Validation of a raw record (utils.py)\<close>

text \<open>
  \<open>validate_weather_data\<close> on a dictionary: the three required keys, then the sanity check
  of \<open>main.temp\<close>, which is skipped when the temperature is falsy (absent, \<open>None\<close> or zero).
\<close>

definition validate_weather_data :: "pydict \<Rightarrow> pyexn + bool" where
  "validate_weather_data data =
     (if dget data ''coord'' = None then Inl ValueError
      else if dget data ''main'' = None then Inl ValueError
      else if dget data ''name'' = None then Inl ValueError
      else
        bindE (subscript (PDict data) ''main'') (\<lambda>main.
        bindE (get_method main ''temp'' PNone) (\<lambda>temp_celsius.
          if truthy temp_celsius then
            bindE (outside temp_celsius (- 100) 60) (\<lambda>bad.
              if bad then Inl ValueError else Inr True)
          else Inr True)))"

section \<open>The transformer (transform.py)\<close>

definition city_of :: "pydict \<Rightarrow> pyexn + pyval" where
  "city_of raw_data =
     bindE (subscript (PDict raw_data) ''name'') (\<lambda>name.
     bindE (subscript (PDict raw_data) ''sys'') (\<lambda>sys.
     bindE (subscript sys ''country'') (\<lambda>country.
     bindE (subscript (PDict raw_data) ''coord'') (\<lambda>coord.
     bindE (subscript coord ''lat'') (\<lambda>lat.
     bindE (subscript (PDict raw_data) ''coord'') (\<lambda>coord'.
     bindE (subscript coord' ''lon'') (\<lambda>lon.
     bindE (get_method (PDict raw_data) ''timezone'' (PInt 0)) (\<lambda>tz.
       Inr (PDict
         [(''city_name'', name),
          (''country_code'', country),
          (''latitude'', lat),
          (''longitude'', lon),
          (''timezone_offset'', tz)])))))))))"

definition condition_of :: "pydict \<Rightarrow> pyexn + pyval" where
  "condition_of raw_data =
     bindE (subscript (PDict raw_data) ''weather'') (\<lambda>weather.
     bindE (index0 weather) (\<lambda>weather_info.
     bindE (subscript weather_info ''main'') (\<lambda>main.
     bindE (subscript weather_info ''description'') (\<lambda>description.
     bindE (subscript weather_info ''icon'') (\<lambda>icon.
       Inr (PDict
         [(''main_condition'', main),
          (''description'', description),
          (''icon_code'', icon)]))))))"

definition measurement_of :: "rat \<Rightarrow> pydict \<Rightarrow> pyexn + pyval" where
  "measurement_of now raw_data =
     bindE (subscript (PDict raw_data) ''main'') (\<lambda>main_data.
     bindE (get_method (PDict raw_data) ''wind'' (PDict [])) (\<lambda>wind_data.
     bindE (bindE (subscript main_data ''temp'') round2) (\<lambda>temperature.
     bindE (bindE (subscript main_data ''feels_like'') round2) (\<lambda>feels_like.
     bindE (bindE (subscript main_data ''temp_min'') round2) (\<lambda>temp_min.
     bindE (bindE (subscript main_data ''temp_max'') round2) (\<lambda>temp_max.
     bindE (subscript main_data ''pressure'') (\<lambda>pressure.
     bindE (subscript main_data ''humidity'') (\<lambda>humidity.
     bindE (get_method (PDict raw_data) ''visibility'' PNone) (\<lambda>visibility.
     bindE (get_method wind_data ''speed'' PNone) (\<lambda>speed.
     bindE (get_method wind_data ''deg'' PNone) (\<lambda>deg.
     bindE (get_method (PDict raw_data) ''clouds'' (PDict [])) (\<lambda>clouds.
     bindE (get_method clouds ''all'' PNone) (\<lambda>cloudiness.
     bindE (bindE (subscript (PDict raw_data) ''dt'') fromtimestamp) (\<lambda>stamp.
       Inr (PDict
         [(''temperature_celsius'', temperature),
          (''feels_like_celsius'', feels_like),
          (''temp_min_celsius'', temp_min),
          (''temp_max_celsius'', temp_max),
          (''pressure_hpa'', pressure),
          (''humidity_percent'', humidity),
          (''visibility_meters'', visibility),
          (''wind_speed_mps'', speed),
          (''wind_direction_degrees'', deg),
          (''cloudiness_percent'', cloudiness),
          (''measurement_timestamp'', stamp),
          (''api_call_timestamp'', PDateTime now)])))))))))))))))"

text \<open>The body of the \<open>try\<close> block of \<open>transform_single_record\<close>.\<close>

definition transform_body :: "rat \<Rightarrow> pydict \<Rightarrow> pyexn + pyval" where
  "transform_body now raw_data =
     bindE (validate_weather_data raw_data) (\<lambda>_.
     bindE (city_of raw_data) (\<lambda>city_data.
     bindE (condition_of raw_data) (\<lambda>condition_data.
     bindE (measurement_of now raw_data) (\<lambda>measurement_data.
       Inr (PDict
         [(''city'', city_data),
          (''condition'', condition_data),
          (''measurement'', measurement_data)])))))"

text \<open>
  \<open>transform_single_record\<close>: both handlers return \<open>None\<close>. \<open>now\<close> is the reading of the
  wall clock during the call. A raw value that is not a dictionary never gets past
  validation and the first subscript (\<open>in\<close> or \<open>raw_data['main']\<close> raises, or a key is
  missing), so the result is \<open>None\<close> as well.
\<close>

fun transform_single_record :: "rat \<Rightarrow> pyval \<Rightarrow> pyval option" where
  "transform_single_record now (PDict raw_data) =
     (case transform_body now raw_data of
        Inl KeyError \<Rightarrow> None
      | Inl e \<Rightarrow> None
      | Inr transformed_data \<Rightarrow> Some transformed_data)"
| "transform_single_record now v = None"

text \<open>
  \<open>transform_multiple_records\<close>: \<open>clock i\<close> is the wall clock during the \<open>i\<close>-th call of
  \<open>transform_single_record\<close>; the accumulator is the list \<open>transformed_records\<close>.
\<close>

fun transform_loop :: "(nat \<Rightarrow> rat) \<Rightarrow> nat \<Rightarrow> pyval list \<Rightarrow> pyval list \<Rightarrow> pyval list" where
  "transform_loop clock i [] transformed_records = transformed_records"
| "transform_loop clock i (raw_data # rest) transformed_records =
     (case transform_single_record (clock i) raw_data of
        None \<Rightarrow> transform_loop clock (Suc i) rest transformed_records
      | Some transformed \<Rightarrow>
          if truthy transformed
          then transform_loop clock (Suc i) rest (transformed_records @ [transformed])
          else transform_loop clock (Suc i) rest transformed_records)"

definition transform_multiple_records :: "(nat \<Rightarrow> rat) \<Rightarrow> pyval list \<Rightarrow> pyval list" where
  "transform_multiple_records clock raw_data_list = transform_loop clock 0 raw_data_list []"

text \<open>
  \<open>validate_transformed_data\<close>: every exception is caught and gives \<open>False\<close>. A value that
  is not a dictionary fails one of the membership tests or the first subscript.
\<close>

definition validate_body :: "pydict \<Rightarrow> pyexn + bool" where
  "validate_body transformed_data =
     (if dget transformed_data ''city'' = None then Inr False
      else if dget transformed_data ''condition'' = None then Inr False
      else if dget transformed_data ''measurement'' = None then Inr False
      else
        bindE (subscript (PDict transformed_data) ''measurement'') (\<lambda>m.
        bindE (subscript m ''temperature_celsius'') (\<lambda>temp.
        bindE (outside temp (- 100) 60) (\<lambda>bad_temp.
          if bad_temp then Inr False
          else
            bindE (subscript (PDict transformed_data) ''measurement'') (\<lambda>m'.
            bindE (subscript m' ''humidity_percent'') (\<lambda>humidity.
            bindE (outside humidity 0 100) (\<lambda>bad_humidity.
              if bad_humidity then Inr False else Inr True)))))))"

fun validate_transformed_data :: "pyval \<Rightarrow> bool" where
  "validate_transformed_data (PDict transformed_data) =
     (case validate_body transformed_data of Inl e \<Rightarrow> False | Inr b \<Rightarrow> b)"
| "validate_transformed_data v = False"

section \<open>The retry wrapper (utils.py)\<close>

text \<open>
  \<open>retry_on_failure(max_retries, delay)\<close> wraps a call \<open>func\<close> that has an effect on a state
  (here: the requests made so far). The loop \<open>for attempt in range(max_retries)\<close> runs
  \<open>attempt = 0, 1, \<dots>\<close>; a loop that ends without returning makes the wrapper return
  \<open>None\<close>. The sleep between two attempts has no effect on the result.
\<close>

function retry_attempts ::
  "int \<Rightarrow> int \<Rightarrow> ('s \<Rightarrow> (pyexn + pyval) \<times> 's) \<Rightarrow> 's \<Rightarrow> (pyexn + pyval) \<times> 's" where
  "retry_attempts attempt max_retries func s =
     (if attempt < max_retries then
        (case func s of
           (Inr v, s') \<Rightarrow> (Inr v, s')
         | (Inl e, s') \<Rightarrow>
             if attempt = max_retries - 1 then (Inl e, s')
             else retry_attempts (attempt + 1) max_retries func s')
      else (Inr PNone, s))"
  by pat_completeness auto
termination
  by (relation "measure (\<lambda>(attempt, max_retries, func, s). nat (max_retries - attempt))") auto

definition retry_on_failure ::
  "int \<Rightarrow> ('s \<Rightarrow> (pyexn + pyval) \<times> 's) \<Rightarrow> 's \<Rightarrow> (pyexn + pyval) \<times> 's" where
  "retry_on_failure max_retries func = retry_attempts 0 max_retries func"

section \<open>The extractor (extract.py)\<close>

text \<open>
  What \<open>requests.get\<close>, \<open>raise_for_status\<close> and \<open>response.json()\<close> do is decided by the
  network: a response with a status and a JSON body, a timeout, another exception of the
  \<open>requests\<close> hierarchy, or an exception outside it (a body that is not JSON is one of
  the last two, depending on the version of the library). The network is a function from
  the number of requests made so far and the query to the outcome of the next request.
\<close>

datatype http_outcome =
    Response nat pyval
  | RaisesTimeout
  | RaisesRequestException
  | RaisesOther

type_synonym web = "nat \<Rightarrow> string option \<Rightarrow> http_outcome"

type_synonym city = "(string \<times> string) list"

definition MAX_RETRIES :: int where
  "MAX_RETRIES = 3"

text \<open>The text an f-string puts for a value that is a \<open>str\<close> or \<open>None\<close>.\<close>

fun fstr :: "string option \<Rightarrow> string" where
  "fstr None = ''None''"
| "fstr (Some s) = s"

definition build_query :: "string option \<Rightarrow> string option \<Rightarrow> string option" where
  "build_query city_name country_code =
     (if country_code \<noteq> None \<and> country_code \<noteq> Some []
      then Some (fstr city_name @ '','' @ fstr country_code)
      else city_name)"

text \<open>
  The body of \<open>fetch_weather_by_city\<close>: an HTTP error status and a \<open>RequestException\<close>
  give \<open>None\<close>, a timeout and any other exception are raised. The state is the number
  of requests made.
\<close>

definition fetch_once ::
  "web \<Rightarrow> string option \<Rightarrow> string option \<Rightarrow> nat \<Rightarrow> (pyexn + pyval) \<times> nat" where
  "fetch_once net city_name country_code n =
     (case net n (build_query city_name country_code) of
        Response status body \<Rightarrow>
          if 400 \<le> status \<and> status < 600 then (Inr PNone, Suc n) else (Inr body, Suc n)
      | RaisesTimeout \<Rightarrow> (Inl Timeout, Suc n)
      | RaisesRequestException \<Rightarrow> (Inr PNone, Suc n)
      | RaisesOther \<Rightarrow> (Inl OtherException, Suc n))"

definition fetch_weather_by_city ::
  "web \<Rightarrow> string option \<Rightarrow> string option \<Rightarrow> nat \<Rightarrow> (pyexn + pyval) \<times> nat" where
  "fetch_weather_by_city net city_name country_code =
     retry_on_failure MAX_RETRIES (fetch_once net city_name country_code)"

text \<open>\<open>fetch_weather_for_cities\<close>: the accumulator is the list \<open>weather_data\<close>.\<close>

fun fetch_loop :: "web \<Rightarrow> city list \<Rightarrow> pyval list \<Rightarrow> nat \<Rightarrow> pyval list \<times> nat" where
  "fetch_loop net [] weather_data n = (weather_data, n)"
| "fetch_loop net (city # rest) weather_data n =
     (case fetch_weather_by_city net (map_of city ''name'') (map_of city ''country'') n of
        (Inr data, n') \<Rightarrow>
          if truthy data then fetch_loop net rest (weather_data @ [data]) n'
          else fetch_loop net rest weather_data n'
      | (Inl e, n') \<Rightarrow> fetch_loop net rest weather_data n')"

definition fetch_weather_for_cities :: "web \<Rightarrow> city list \<Rightarrow> nat \<Rightarrow> pyval list \<times> nat" where
  "fetch_weather_for_cities net cities n = fetch_loop net cities [] n"

section \<open>The relational store\<close>

text \<open>
  Modelled from the spec: the schema of the three tables is not among the sources; section 6
  of the specification gives the columns, the generated primary keys \<open>city_id\<close> and
  \<open>condition_id\<close>, and the conflict target of the measurements. A row of a dimension
  table is its generated key and its columns; the keys come from a sequence. The SQL
  statements themselves are those of \<open>load.py\<close>.
\<close>

record db =
  cities :: "(int \<times> pydict) list"
  weather_conditions :: "(int \<times> pydict) list"
  weather_measurements :: "pydict list"
  city_id_seq :: int
  condition_id_seq :: int
  connects :: nat

definition city_columns :: "string list" where
  "city_columns =
     [''city_name'', ''country_code'', ''latitude'', ''longitude'', ''timezone_offset'']"

definition condition_columns :: "string list" where
  "condition_columns = [''main_condition'', ''description'', ''icon_code'']"

definition measurement_columns :: "string list" where
  "measurement_columns =
     [''city_id'', ''condition_id'', ''temperature_celsius'', ''feels_like_celsius'',
      ''temp_min_celsius'', ''temp_max_celsius'', ''pressure_hpa'', ''humidity_percent'',
      ''visibility_meters'', ''wind_speed_mps'', ''wind_direction_degrees'',
      ''cloudiness_percent'', ''measurement_timestamp'']"

text \<open>The SQL comparison \<open>a = b\<close> as a condition: it does not hold when a side is \<open>NULL\<close>.\<close>

definition sql_eq :: "pyval option \<Rightarrow> pyval option \<Rightarrow> bool" where
  "sql_eq a b = (a \<noteq> None \<and> a \<noteq> Some PNone \<and> a = b)"

text \<open>
  Binding the named parameters of a statement from a dictionary: a parameter without a
  value is a \<open>StatementError\<close> (a \<open>SQLAlchemyError\<close>); keys that the statement does not name
  are not used.
\<close>

fun bind_params :: "string list \<Rightarrow> pydict \<Rightarrow> pyexn + pydict" where
  "bind_params [] d = Inr []"
| "bind_params (c # cs) d =
     (case dget d c of
        None \<Rightarrow> Inl SQLAlchemyError
      | Some v \<Rightarrow> bindE (bind_params cs d) (\<lambda>rest. Inr ((c, v) # rest)))"

text \<open>\<open>data.pop(k, None)\<close> and \<open>{**a, **b}\<close> on association lists read by first match.\<close>

definition dpop :: "string \<Rightarrow> pydict \<Rightarrow> pydict" where
  "dpop k d = filter (\<lambda>kv. fst kv \<noteq> k) d"

definition dmerge :: "pydict \<Rightarrow> pydict \<Rightarrow> pydict" where
  "dmerge a b = b @ filter (\<lambda>kv. fst kv \<notin> set (map fst b)) a"

section \<open>The loader (load.py)\<close>

text \<open>
  Every operation opens one connection. Whether the data layer fails during that
  connection is decided outside the program: \<open>fault i\<close> says that the \<open>i\<close>-th connection of
  the run raises a \<open>SQLAlchemyError\<close> before anything is committed, whatever the cause
  (the server cannot be reached, a constraint of the schema is violated, the driver cannot
  adapt a value). A parameter of a statement that has no value is a failure that the data
  decide; it is written out in \<open>bind_params\<close>.
\<close>

text \<open>The \<open>WHERE\<close> clauses of the two \<open>SELECT\<close> statements.\<close>

definition city_matches :: "pyval \<Rightarrow> pyval \<Rightarrow> int \<times> pydict \<Rightarrow> bool" where
  "city_matches name country row =
     (sql_eq (dget (snd row) ''city_name'') (Some name)
      \<and> sql_eq (dget (snd row) ''country_code'') (Some country))"

definition condition_matches :: "pyval \<Rightarrow> pyval \<Rightarrow> int \<times> pydict \<Rightarrow> bool" where
  "condition_matches main description row =
     (sql_eq (dget (snd row) ''main_condition'') (Some main)
      \<and> sql_eq (dget (snd row) ''description'') (Some description))"

definition load_city_body :: "pyval \<Rightarrow> db \<Rightarrow> pyexn + (pyval \<times> db)" where
  "load_city_body city_data s =
     bindE (subscript city_data ''city_name'') (\<lambda>name.
     bindE (subscript city_data ''country_code'') (\<lambda>country.
       case find (city_matches name country) (cities s) of
         Some row \<Rightarrow> Inr (PInt (fst row), s)
       | None \<Rightarrow>
           (case city_data of
              PDict d \<Rightarrow>
                bindE (bind_params city_columns d) (\<lambda>columns.
                  Inr (PInt (city_id_seq s),
                       s\<lparr>cities := cities s @ [(city_id_seq s, columns)],
                         city_id_seq := city_id_seq s + 1\<rparr>))
            | _ \<Rightarrow> Inl TypeError)))"

definition load_city :: "(nat \<Rightarrow> bool) \<Rightarrow> pyval \<Rightarrow> db \<Rightarrow> pyval \<times> db" where
  "load_city fault city_data s =
     (let s' = s\<lparr>connects := Suc (connects s)\<rparr>
      in if fault (connects s) then (PNone, s')
         else (case load_city_body city_data s' of
                 Inl SQLAlchemyError \<Rightarrow> (PNone, s')
               | Inl e \<Rightarrow> (PNone, s')
               | Inr r \<Rightarrow> r))"

definition load_weather_condition_body :: "pyval \<Rightarrow> db \<Rightarrow> pyexn + (pyval \<times> db)" where
  "load_weather_condition_body condition_data s =
     bindE (subscript condition_data ''main_condition'') (\<lambda>main.
     bindE (subscript condition_data ''description'') (\<lambda>description.
       case find (condition_matches main description) (weather_conditions s) of
         Some row \<Rightarrow> Inr (PInt (fst row), s)
       | None \<Rightarrow>
           (case condition_data of
              PDict d \<Rightarrow>
                bindE (bind_params condition_columns d) (\<lambda>columns.
                  Inr (PInt (condition_id_seq s),
                       s\<lparr>weather_conditions :=
                           weather_conditions s @ [(condition_id_seq s, columns)],
                         condition_id_seq := condition_id_seq s + 1\<rparr>))
            | _ \<Rightarrow> Inl TypeError)))"

definition load_weather_condition :: "(nat \<Rightarrow> bool) \<Rightarrow> pyval \<Rightarrow> db \<Rightarrow> pyval \<times> db" where
  "load_weather_condition fault condition_data s =
     (let s' = s\<lparr>connects := Suc (connects s)\<rparr>
      in if fault (connects s) then (PNone, s')
         else (case load_weather_condition_body condition_data s' of
                 Inl SQLAlchemyError \<Rightarrow> (PNone, s')
               | Inl e \<Rightarrow> (PNone, s')
               | Inr r \<Rightarrow> r))"

text \<open>
  The statement of \<open>load_measurement\<close>: \<open>ON CONFLICT (city_id, measurement_timestamp) DO
  NOTHING\<close> leaves the table alone when a row with the same pair is there.
\<close>

definition conflicts :: "pydict \<Rightarrow> pydict \<Rightarrow> bool" where
  "conflicts row old =
     (sql_eq (dget old ''city_id'') (dget row ''city_id'')
      \<and> sql_eq (dget old ''measurement_timestamp'') (dget row ''measurement_timestamp''))"

definition insert_measurement :: "pydict \<Rightarrow> db \<Rightarrow> db" where
  "insert_measurement row s =
     (if list_ex (conflicts row) (weather_measurements s) then s
      else s\<lparr>weather_measurements := weather_measurements s @ [row]\<rparr>)"

definition measurement_params :: "pyval \<Rightarrow> pyval \<Rightarrow> pyval \<Rightarrow> pyexn + pydict" where
  "measurement_params measurement_data city_id condition_id =
     (case measurement_data of
        PDict m \<Rightarrow>
          Inr (dpop ''api_call_timestamp''
                 (dmerge [(''city_id'', city_id), (''condition_id'', condition_id)] m))
      | _ \<Rightarrow> Inl TypeError)"

definition load_measurement_body :: "pyval \<Rightarrow> pyval \<Rightarrow> pyval \<Rightarrow> db \<Rightarrow> pyexn + db" where
  "load_measurement_body measurement_data city_id condition_id s =
     bindE (measurement_params measurement_data city_id condition_id) (\<lambda>data.
     bindE (bind_params measurement_columns data) (\<lambda>row.
       Inr (insert_measurement row s)))"

definition load_measurement ::
  "(nat \<Rightarrow> bool) \<Rightarrow> pyval \<Rightarrow> pyval \<Rightarrow> pyval \<Rightarrow> db \<Rightarrow> bool \<times> db" where
  "load_measurement fault measurement_data city_id condition_id s =
     (let s' = s\<lparr>connects := Suc (connects s)\<rparr>
      in if fault (connects s) then (False, s')
         else (case load_measurement_body measurement_data city_id condition_id s' of
                 Inl SQLAlchemyError \<Rightarrow> (False, s')
               | Inl e \<Rightarrow> (False, s')
               | Inr s'' \<Rightarrow> (True, s'')))"

text \<open>
  \<open>load_weather_record\<close>: an exception of a subscript gives \<open>False\<close>, with the store as
  the operations before it left it. The message logged after a successful insert reads
  \<open>transformed_data['city']['city_name']\<close>.
\<close>

definition load_weather_record :: "(nat \<Rightarrow> bool) \<Rightarrow> pyval \<Rightarrow> db \<Rightarrow> bool \<times> db" where
  "load_weather_record fault transformed_data s =
     (case subscript transformed_data ''city'' of
        Inl e \<Rightarrow> (False, s)
      | Inr city_data \<Rightarrow>
          (case load_city fault city_data s of (city_id, s1) \<Rightarrow>
             if \<not> truthy city_id then (False, s1)
             else (case subscript transformed_data ''condition'' of
                     Inl e \<Rightarrow> (False, s1)
                   | Inr condition_data \<Rightarrow>
                       (case load_weather_condition fault condition_data s1 of
                          (condition_id, s2) \<Rightarrow>
                            if \<not> truthy condition_id then (False, s2)
                            else (case subscript transformed_data ''measurement'' of
                                    Inl e \<Rightarrow> (False, s2)
                                  | Inr measurement_data \<Rightarrow>
                                      (case load_measurement fault measurement_data
                                              city_id condition_id s2 of
                                         (success, s3) \<Rightarrow>
                                           if success then
                                             (case subscript city_data ''city_name'' of
                                                Inl e \<Rightarrow> (False, s3)
                                              | Inr name \<Rightarrow> (True, s3))
                                           else (False, s3)))))))"

record load_result =
  success :: nat
  failure :: nat
  total :: nat

fun load_loop ::
  "(nat \<Rightarrow> bool) \<Rightarrow> pyval list \<Rightarrow> nat \<Rightarrow> nat \<Rightarrow> db \<Rightarrow> (nat \<times> nat) \<times> db" where
  "load_loop fault [] success_count failure_count s = ((success_count, failure_count), s)"
| "load_loop fault (data # rest) success_count failure_count s =
     (case load_weather_record fault data s of
        (ok, s') \<Rightarrow>
          if ok then load_loop fault rest (success_count + 1) failure_count s'
          else load_loop fault rest success_count (failure_count + 1) s')"

definition load_multiple_records ::
  "(nat \<Rightarrow> bool) \<Rightarrow> pyval list \<Rightarrow> db \<Rightarrow> load_result \<times> db" where
  "load_multiple_records fault transformed_data_list s =
     (case load_loop fault transformed_data_list 0 0 s of
        ((success_count, failure_count), s') \<Rightarrow>
          (\<lparr>success = success_count, failure = failure_count,
            total = length transformed_data_list\<rparr>, s'))"

definition test_connection :: "(nat \<Rightarrow> bool) \<Rightarrow> db \<Rightarrow> bool \<times> db" where
  "test_connection fault s = (\<not> fault (connects s), s\<lparr>connects := Suc (connects s)\<rparr>)"

section \<open>The pipeline (main.py, config.py)\<close>

text \<open>
  The configuration the run reads: the two secrets checked by \<open>Config.validate\<close>, the city
  list, and whether \<open>create_engine\<close> accepts the database URL. \<open>main.py\<close> names the
  transformer class \<open>WeatherTransformer\<close>; \<open>transform.py\<close> defines it as
  \<open>weather_transformer\<close>. The two names are taken to be the one class.
\<close>

record config =
  API_KEY :: "string option"
  DB_PASSWORD :: "string option"
  CITIES :: "city list"
  engine_ok :: bool

definition config_validate :: "config \<Rightarrow> pyexn + bool" where
  "config_validate cfg =
     (if API_KEY cfg = None \<or> API_KEY cfg = Some [] then Inl ValueError
      else if DB_PASSWORD cfg = None \<or> DB_PASSWORD cfg = Some [] then Inl ValueError
      else Inr True)"

definition new_extractor :: "config \<Rightarrow> pyexn + unit" where
  "new_extractor cfg =
     (if API_KEY cfg = None \<or> API_KEY cfg = Some [] then Inl ValueError else Inr ())"

definition new_loader :: "config \<Rightarrow> pyexn + unit" where
  "new_loader cfg = (if engine_ok cfg then Inr () else Inl OtherException)"

text \<open>
  The \<open>try\<close> block of \<open>run_etl_pipeline\<close>. The result carries the store at the end of
  the run. \<open>loader.close()\<close> disposes of the engine and leaves the store as it is.
\<close>

definition pipeline_body ::
  "config \<Rightarrow> web \<Rightarrow> (nat \<Rightarrow> bool) \<Rightarrow> (nat \<Rightarrow> rat) \<Rightarrow> db \<Rightarrow> pyexn + (bool \<times> db)" where
  "pipeline_body cfg net fault clock s =
     bindE (config_validate cfg) (\<lambda>_.
     bindE (new_extractor cfg) (\<lambda>_.
     bindE (new_loader cfg) (\<lambda>_.
       case test_connection fault s of (reachable, s0) \<Rightarrow>
         if \<not> reachable then Inr (False, s0)
         else
           (case fetch_weather_for_cities net (CITIES cfg) 0 of (raw_data_list, n) \<Rightarrow>
              if raw_data_list = [] then Inr (False, s0)
              else
                (let transformed_data_list = transform_multiple_records clock raw_data_list
                 in if transformed_data_list = [] then Inr (False, s0)
                    else
                      (case load_multiple_records fault transformed_data_list s0 of
                         (result, s1) \<Rightarrow> Inr (True, s1)))))))"

definition run_etl_pipeline ::
  "config \<Rightarrow> web \<Rightarrow> (nat \<Rightarrow> bool) \<Rightarrow> (nat \<Rightarrow> rat) \<Rightarrow> db \<Rightarrow> bool \<times> db" where
  "run_etl_pipeline cfg net fault clock s =
     (case pipeline_body cfg net fault clock s of
        Inl e \<Rightarrow> (False, s)
      | Inr r \<Rightarrow> r)"

section \<open>Concrete inputs\<close>

text \<open>The fixtures of \<open>tests/conftest.py\<close>, with the fields that the tests vary as arguments.\<close>

definition sample_city :: pydict where
  "sample_city =
     [(''city_name'', PStr ''London''), (''country_code'', PStr ''GB''),
      (''latitude'', PFloat 51.5085), (''longitude'', PFloat (- 0.1257)),
      (''timezone_offset'', PInt 0)]"

definition sample_condition :: pydict where
  "sample_condition =
     [(''main_condition'', PStr ''Clear''), (''description'', PStr ''clear sky''),
      (''icon_code'', PStr ''01d'')]"

definition sample_measurement :: "pyval \<Rightarrow> pyval \<Rightarrow> pydict" where
  "sample_measurement temp humidity =
     [(''temperature_celsius'', temp), (''feels_like_celsius'', PFloat 14.2),
      (''temp_min_celsius'', PFloat 13.0), (''temp_max_celsius'', PFloat 17.0),
      (''pressure_hpa'', PInt 1013), (''humidity_percent'', humidity),
      (''visibility_meters'', PInt 10000), (''wind_speed_mps'', PFloat 3.5),
      (''wind_direction_degrees'', PInt 180), (''cloudiness_percent'', PInt 20),
      (''measurement_timestamp'', PDateTime 1609459200),
      (''api_call_timestamp'', PDateTime 1700000000)]"

definition sample_transformed_data :: "pyval \<Rightarrow> pyval \<Rightarrow> pydict" where
  "sample_transformed_data temp humidity =
     [(''city'', PDict sample_city),
      (''condition'', PDict sample_condition),
      (''measurement'', PDict (sample_measurement temp humidity))]"

definition invalid_weather_data :: pydict where
  "invalid_weather_data =
     [(''name'', PStr ''London''), (''main'', PDict [(''temp'', PFloat 15.5)])]"

definition sample_raw_weather_data :: "pyval \<Rightarrow> pyval \<Rightarrow> pydict" where
  "sample_raw_weather_data temp humidity =
     [(''coord'', PDict [(''lon'', PFloat (- 0.1257)), (''lat'', PFloat 51.5085)]),
      (''weather'', PList
         [PDict [(''id'', PInt 800), (''main'', PStr ''Clear''),
                 (''description'', PStr ''clear sky''), (''icon'', PStr ''01d'')]]),
      (''base'', PStr ''stations''),
      (''main'', PDict
         [(''temp'', temp), (''feels_like'', PFloat 14.2), (''temp_min'', PFloat 13.0),
          (''temp_max'', PFloat 17.0), (''pressure'', PInt 1013),
          (''humidity'', humidity)]),
      (''visibility'', PInt 10000),
      (''wind'', PDict [(''speed'', PFloat 3.5), (''deg'', PInt 180)]),
      (''clouds'', PDict [(''all'', PInt 20)]),
      (''dt'', PInt 1609459200),
      (''sys'', PDict [(''type'', PInt 2), (''id'', PInt 2019646), (''country'', PStr ''GB''),
                      (''sunrise'', PInt 1609485600), (''sunset'', PInt 1609519200)]),
      (''timezone'', PInt 0),
      (''id'', PInt 2643743),
      (''name'', PStr ''London''),
      (''cod'', PInt 200)]"

text \<open>The records of \<open>test_transform_with_missing_optional_fields\<close> and of
  \<open>test_transform_with_multiple_weather_conditions\<close>.\<close>

definition minimal_data :: pydict where
  "minimal_data =
     [(''coord'', PDict [(''lon'', PFloat (- 0.1257)), (''lat'', PFloat 51.5085)]),
      (''weather'', PList
         [PDict [(''id'', PInt 800), (''main'', PStr ''Clear''),
                 (''description'', PStr ''clear sky''), (''icon'', PStr ''01d'')]]),
      (''main'', PDict
         [(''temp'', PFloat 15.5), (''feels_like'', PFloat 14.2), (''temp_min'', PFloat 13.0),
          (''temp_max'', PFloat 17.0), (''pressure'', PInt 1013), (''humidity'', PInt 65)]),
      (''dt'', PInt 1609459200),
      (''sys'', PDict [(''country'', PStr ''GB'')]),
      (''name'', PStr ''London'')]"

definition two_conditions_data :: pydict where
  "two_conditions_data =
     [(''coord'', PDict [(''lon'', PInt 0), (''lat'', PInt 0)]),
      (''weather'', PList
         [PDict [(''main'', PStr ''Rain''), (''description'', PStr ''light rain''),
                 (''icon'', PStr ''10d'')],
          PDict [(''main'', PStr ''Clouds''), (''description'', PStr ''few clouds''),
                 (''icon'', PStr ''02d'')]]),
      (''main'', PDict
         [(''temp'', PFloat 15.5), (''feels_like'', PFloat 14.2), (''temp_min'', PFloat 13.0),
          (''temp_max'', PFloat 17.0), (''pressure'', PInt 1013), (''humidity'', PInt 65)]),
      (''dt'', PInt 1609459200),
      (''sys'', PDict [(''country'', PStr ''GB'')]),
      (''name'', PStr ''TestCity'')]"

text \<open>A data layer without faults and stores to run the loader on.\<close>

definition no_fault :: "nat \<Rightarrow> bool" where
  "no_fault i = False"

definition empty_db :: db where
  "empty_db =
     \<lparr>cities = [], weather_conditions = [], weather_measurements = [],
      city_id_seq = 1, condition_id_seq = 1, connects = 0\<rparr>"

definition sample_row :: "pyval \<Rightarrow> pyval \<Rightarrow> pydict" where
  "sample_row temp humidity =
     [(''city_id'', PInt 1), (''condition_id'', PInt 1),
      (''temperature_celsius'', temp), (''feels_like_celsius'', PFloat 14.2),
      (''temp_min_celsius'', PFloat 13.0), (''temp_max_celsius'', PFloat 17.0),
      (''pressure_hpa'', PInt 1013), (''humidity_percent'', humidity),
      (''visibility_meters'', PInt 10000), (''wind_speed_mps'', PFloat 3.5),
      (''wind_direction_degrees'', PInt 180), (''cloudiness_percent'', PInt 20),
      (''measurement_timestamp'', PDateTime 1609459200)]"

definition db_city_zero :: db where
  "db_city_zero = empty_db\<lparr>cities := [(0, sample_city)], city_id_seq := 1\<rparr>"

definition first_fault :: "nat \<Rightarrow> bool" where
  "first_fault i = (i = 0)"

definition second_fault :: "nat \<Rightarrow> bool" where
  "second_fault i = (i = 1)"

text \<open>A record whose city section has no name: its city cannot be resolved.\<close>

definition unresolvable_record :: pydict where
  "unresolvable_record =
     [(''city'', PDict []),
      (''condition'', PDict sample_condition),
      (''measurement'', PDict (sample_measurement (PFloat 9.5) (PInt 80)))]"

definition sample_batch :: "pyval list" where
  "sample_batch =
     [PDict (sample_transformed_data (PFloat 15.5) (PInt 65)),
      PDict unresolvable_record,
      PDict (sample_transformed_data (PFloat 16.5) (PInt 60))]"

text \<open>Networks: the answers of the provider to the successive requests of a run.\<close>

definition always_404 :: web where
  "always_404 n q = Response 404 PNone"

definition always_timeout :: web where
  "always_timeout n q = RaisesTimeout"

definition timeout_then_ok :: web where
  "timeout_then_ok n q =
     (if n = 0 then RaisesTimeout
      else Response 200 (PDict (sample_raw_weather_data (PFloat 15.5) (PInt 65))))"

definition empty_body :: web where
  "empty_body n q = Response 200 (PDict [])"

definition second_fails :: web where
  "second_fails n q =
     (if n = 0 then Response 200 (PDict (sample_raw_weather_data (PFloat 15.5) (PInt 65)))
      else if n = 1 then Response 404 PNone
      else Response 200 (PDict (sample_raw_weather_data (PFloat 21) (PInt 40))))"

text \<open>The first three cities of \<open>sample_cities\<close>.\<close>

definition london :: city where
  "london = [(''name'', ''London''), (''country'', ''GB'')]"

definition paris :: city where
  "paris = [(''name'', ''Paris''), (''country'', ''FR'')]"

definition tokyo :: city where
  "tokyo = [(''name'', ''Tokyo''), (''country'', ''JP'')]"

text \<open>Configurations, a data layer that fails after the connection test, a clock.\<close>

definition good_config :: config where
  "good_config =
     \<lparr>API_KEY = Some ''key'', DB_PASSWORD = Some ''postgres'',
      CITIES = [london, paris, tokyo], engine_ok = True\<rparr>"

definition london_config :: config where
  "london_config =
     \<lparr>API_KEY = Some ''key'', DB_PASSWORD = Some ''postgres'',
      CITIES = [london], engine_ok = True\<rparr>"

definition after_first_connection :: "nat \<Rightarrow> bool" where
  "after_first_connection i = (0 < i)"

definition fixed_clock :: "nat \<Rightarrow> rat" where
  "fixed_clock i = 1700000000"

definition invalid_body :: web where
  "invalid_body n q = Response 200 (PDict invalid_weather_data)"

definition humid_body :: web where
  "humid_body n q = Response 200 (PDict (sample_raw_weather_data (PFloat 15.5) (PInt 150)))"

section \<open>Notions used to state the properties\<close>

text \<open>The state in which the \<open>i\<close>-th call of \<open>func\<close> starts, counting from 0.\<close>

fun state_after :: "('s \<Rightarrow> (pyexn + pyval) \<times> 's) \<Rightarrow> nat \<Rightarrow> 's \<Rightarrow> 's" where
  "state_after func 0 s = s"
| "state_after func (Suc i) s = state_after func i (snd (func s))"

text \<open>
  What the retrying fetch gives for each city of the list, in the order of the list, when
  the cities are fetched one after the other.
\<close>

fun city_results :: "web \<Rightarrow> city list \<Rightarrow> nat \<Rightarrow> (pyexn + pyval) list" where
  "city_results net [] n = []"
| "city_results net (city # rest) n =
     (case fetch_weather_by_city net (map_of city ''name'') (map_of city ''country'') n of
        (r, n') \<Rightarrow> r # city_results net rest n')"

text \<open>A fetch survives when it returned a value that Python takes for true.\<close>

fun survives :: "pyexn + pyval \<Rightarrow> bool" where
  "survives (Inl e) = False"
| "survives (Inr v) = truthy v"

definition survivors :: "(pyexn + pyval) list \<Rightarrow> pyval list" where
  "survivors rs = map projr (filter survives rs)"

text \<open>
  The outcome of \<open>load_weather_record\<close> for each record of a batch, in the order of the
  batch, when the records are loaded one after the other.
\<close>

fun record_results :: "(nat \<Rightarrow> bool) \<Rightarrow> pyval list \<Rightarrow> db \<Rightarrow> bool list" where
  "record_results fault [] s = []"
| "record_results fault (data # rest) s =
     (case load_weather_record fault data s of
        (ok, s') \<Rightarrow> ok # record_results fault rest s')"

section \<open>Basic facts\<close>

lemma bindE_simps [simp]:
  "bindE (Inl e) f = Inl e"
  "bindE (Inr x) f = f x"
  by (simp_all add: bindE_def)

section \<open>Rejection of raw records\<close>

lemma validate_weather_data_missing:
  "dget d ''coord'' = None \<or> dget d ''main'' = None \<or> dget d ''name'' = None
   \<Longrightarrow> validate_weather_data d = Inl ValueError"
  by (auto simp: validate_weather_data_def)

lemma validate_weather_data_temperature:
  assumes "dget d ''main'' = Some (PDict m)" and "dget m ''temp'' = Some t"
    and "num_of t = Some x" and "x < - 100 \<or> 60 < x"
  shows "validate_weather_data d = Inl ValueError"
proof -
  have "truthy t"
    using assms(3,4) by (cases t) (auto split: if_splits)
  with assms show ?thesis
    by (auto simp: validate_weather_data_def outside_def)
qed

text \<open>
  C4. A raw record that lacks \<open>coord\<close>, \<open>main\<close> or \<open>name\<close>, or whose \<open>main.temp\<close> is a number
  below -100 or above 60, makes \<open>transform_single_record\<close> return \<open>None\<close>; the function
  returns a value in every case, it does not raise.
\<close>

theorem transform_single_record_rejects:
  assumes "dget d ''coord'' = None \<or> dget d ''main'' = None \<or> dget d ''name'' = None
    \<or> (\<exists>m t x. dget d ''main'' = Some (PDict m) \<and> dget m ''temp'' = Some t
          \<and> num_of t = Some x \<and> (x < - 100 \<or> 60 < x))"
  shows "transform_single_record now (PDict d) = None"
proof -
  have "validate_weather_data d = Inl ValueError"
    using assms validate_weather_data_missing validate_weather_data_temperature by blast
  then show ?thesis
    by (simp add: transform_body_def)
qed

theorem transform_single_record_rejects_witness:
  "transform_single_record 0 (PDict invalid_weather_data) = None
   \<and> transform_single_record 0 (PDict (sample_raw_weather_data (PFloat 150.0) (PInt 65))) = None
   \<and> transform_single_record 0 (PDict (sample_raw_weather_data (PFloat (- 100.0001)) (PInt 65)))
       = None"
proof -
  have missing: "dget invalid_weather_data ''coord'' = None"
    by (simp add: invalid_weather_data_def dget_def)
  have main: "dget (sample_raw_weather_data t h) ''main''
      = Some (PDict [(''temp'', t), (''feels_like'', PFloat 14.2), (''temp_min'', PFloat 13.0),
          (''temp_max'', PFloat 17.0), (''pressure'', PInt 1013), (''humidity'', h)])" for t h
    by (simp add: sample_raw_weather_data_def dget_def)
  have hot: "\<exists>m t x. dget (sample_raw_weather_data (PFloat 150.0) (PInt 65)) ''main''
        = Some (PDict m) \<and> dget m ''temp'' = Some t \<and> num_of t = Some x
        \<and> (x < - 100 \<or> 60 < x)"
    unfolding main by (simp add: dget_def)
  have cold: "\<exists>m t x. dget (sample_raw_weather_data (PFloat (- 100.0001)) (PInt 65)) ''main''
        = Some (PDict m) \<and> dget m ''temp'' = Some t \<and> num_of t = Some x
        \<and> (x < - 100 \<or> 60 < x)"
    unfolding main by (simp add: dget_def)
  show ?thesis
    using transform_single_record_rejects [of invalid_weather_data 0] missing
      transform_single_record_rejects [OF disjI2 [OF disjI2 [OF disjI2 [OF hot]]], of 0]
      transform_single_record_rejects [OF disjI2 [OF disjI2 [OF disjI2 [OF cold]]], of 0]
    by blast
qed

section \<open>The validation gate\<close>

text \<open>
  C7. \<open>validate_transformed_data\<close> accepts a record with its three sections exactly when
  the temperature lies in [-100, 60] and the humidity in [0, 100], both bounds included;
  a record that lacks a section is refused.
\<close>

theorem validate_transformed_data_bounds:
  "(dget td ''city'' \<noteq> None \<and> dget td ''condition'' \<noteq> None
      \<and> dget td ''measurement'' = Some (PDict m)
      \<and> dget m ''temperature_celsius'' = Some t \<and> num_of t = Some x
      \<and> dget m ''humidity_percent'' = Some h \<and> num_of h = Some y
     \<longrightarrow> validate_transformed_data (PDict td)
           = (- 100 \<le> x \<and> x \<le> 60 \<and> 0 \<le> y \<and> y \<le> 100))
   \<and> (dget td ''city'' = None \<or> dget td ''condition'' = None
        \<or> dget td ''measurement'' = None
     \<longrightarrow> \<not> validate_transformed_data (PDict td))"
  by (auto simp: validate_body_def outside_def)

lemma sample_transformed_data_sections:
  "dget (sample_transformed_data t h) ''city'' \<noteq> None"
  "dget (sample_transformed_data t h) ''condition'' \<noteq> None"
  "\<exists>m. dget (sample_transformed_data t h) ''measurement'' = Some (PDict m)
     \<and> dget m ''temperature_celsius'' = Some t \<and> dget m ''humidity_percent'' = Some h"
  by (simp_all add: sample_transformed_data_def sample_measurement_def dget_def)

theorem validate_transformed_data_bounds_witness:
  "\<not> validate_transformed_data (PDict (sample_transformed_data (PFloat 15.5) (PInt 150)))
   \<and> \<not> validate_transformed_data (PDict (sample_transformed_data (PFloat 15.5) (PInt (- 10))))
   \<and> validate_transformed_data (PDict (sample_transformed_data (PFloat 15.5) (PInt 65)))
   \<and> validate_transformed_data (PDict (sample_transformed_data (PFloat (- 99.0)) (PInt 65)))
   \<and> validate_transformed_data (PDict (sample_transformed_data (PFloat 59.0) (PInt 65)))
   \<and> validate_transformed_data (PDict (sample_transformed_data (PFloat (- 100)) (PInt 0)))
   \<and> validate_transformed_data (PDict (sample_transformed_data (PFloat 60) (PInt 100)))
   \<and> \<not> validate_transformed_data
         (PDict (sample_transformed_data (PFloat (- 100.0001)) (PInt 65)))
   \<and> \<not> validate_transformed_data (PDict (sample_transformed_data (PFloat 60.0001) (PInt 65)))
   \<and> \<not> validate_transformed_data
         (PDict (tl (sample_transformed_data (PFloat 15.5) (PInt 65))))"
proof -
  have range: "validate_transformed_data (PDict (sample_transformed_data (PFloat a) (PInt b)))
      = (- 100 \<le> a \<and> a \<le> 60 \<and> 0 \<le> rat_of_int b \<and> rat_of_int b \<le> 100)" for a b
    using sample_transformed_data_sections [of "PFloat a" "PInt b"]
      validate_transformed_data_bounds
        [of "sample_transformed_data (PFloat a) (PInt b)" _ "PFloat a" a "PInt b" "of_int b"]
    by auto
  have missing:
    "\<not> validate_transformed_data (PDict (tl (sample_transformed_data (PFloat 15.5) (PInt 65))))"
    using validate_transformed_data_bounds
        [of "tl (sample_transformed_data (PFloat 15.5) (PInt 65))"]
    by (simp add: sample_transformed_data_def dget_def)
  show ?thesis
    unfolding range using missing by simp
qed

section \<open>The retry policy\<close>

lemma retry_attempts_run:
  assumes "attempt + int k < max_retries"
    and "\<forall>i<k. \<exists>e. fst (func (state_after func i s)) = Inl e"
    and "(\<exists>v. fst (func (state_after func k s)) = Inr v) \<or> attempt + int k = max_retries - 1"
  shows "retry_attempts attempt max_retries func s = func (state_after func k s)"
  using assms
proof (induction k arbitrary: attempt s)
  case 0
  then show ?case
    by (cases "func s") (auto split: sum.splits)
next
  case (Suc k)
  from Suc.prems(2) obtain e where e: "fst (func s) = Inl e"
    by (metis state_after.simps(1) zero_less_Suc)
  then obtain s' where s': "func s = (Inl e, s')"
    by (cases "func s") auto
  have "retry_attempts (attempt + 1) max_retries func s' = func (state_after func k s')"
  proof (rule Suc.IH)
    show "attempt + 1 + int k < max_retries" using Suc.prems(1) by simp
    show "\<forall>i<k. \<exists>e. fst (func (state_after func i s')) = Inl e"
      using Suc.prems(2) s' by (metis Suc_less_eq snd_conv state_after.simps(2))
    show "(\<exists>v. fst (func (state_after func k s')) = Inr v)
        \<or> attempt + 1 + int k = max_retries - 1"
      using Suc.prems(3) s' by simp
  qed
  moreover have "attempt < max_retries" "attempt \<noteq> max_retries - 1"
    using Suc.prems(1) by simp_all
  ultimately show ?case
    using s' by simp
qed

lemma retry_on_failure_no_attempts:
  "max_retries \<le> 0 \<Longrightarrow> retry_on_failure max_retries func s = (Inr PNone, s)"
  by (simp add: retry_on_failure_def)

text \<open>
  C3. When the first \<open>k\<close> calls raise and call \<open>k\<close> returns a value, or is the last attempt
  allowed, the wrapper gives what call \<open>k\<close> gave, in the state call \<open>k\<close> left: no call is
  made after a return, and the exception of the last attempt is raised again. A fetch
  that ends with an HTTP error status returns \<open>None\<close> after one request; three timeouts
  in a row make \<open>fetch_weather_by_city\<close> raise the timeout after three requests.
\<close>

theorem retry_on_failure_policy:
  "(int k < max_retries
      \<and> (\<forall>i<k. \<exists>e. fst (func (state_after func i s)) = Inl e)
      \<and> ((\<exists>v. fst (func (state_after func k s)) = Inr v) \<or> int k = max_retries - 1)
     \<longrightarrow> retry_on_failure max_retries func s = func (state_after func k s))
   \<and> ((\<exists>status body. net n (build_query city_name country_code) = Response status body
          \<and> 400 \<le> status \<and> status < 600)
     \<longrightarrow> fetch_weather_by_city net city_name country_code n = (Inr PNone, Suc n))
   \<and> ((\<forall>i<3. net (n + i) (build_query city_name country_code) = RaisesTimeout)
     \<longrightarrow> fetch_weather_by_city net city_name country_code n = (Inl Timeout, n + 3))"
proof (intro conjI impI)
  assume "int k < max_retries
      \<and> (\<forall>i<k. \<exists>e. fst (func (state_after func i s)) = Inl e)
      \<and> ((\<exists>v. fst (func (state_after func k s)) = Inr v) \<or> int k = max_retries - 1)"
  then show "retry_on_failure max_retries func s = func (state_after func k s)"
    unfolding retry_on_failure_def using retry_attempts_run [of 0 k max_retries func s] by simp
next
  assume "\<exists>status body. net n (build_query city_name country_code) = Response status body
          \<and> 400 \<le> status \<and> status < 600"
  then have "fetch_once net city_name country_code n = (Inr PNone, Suc n)"
    by (auto simp: fetch_once_def)
  then show "fetch_weather_by_city net city_name country_code n = (Inr PNone, Suc n)"
    by (simp add: fetch_weather_by_city_def retry_on_failure_def MAX_RETRIES_def)
next
  assume t: "\<forall>i<3. net (n + i) (build_query city_name country_code) = RaisesTimeout"
  have "net n (build_query city_name country_code) = RaisesTimeout"
    "net (Suc n) (build_query city_name country_code) = RaisesTimeout"
    "net (Suc (Suc n)) (build_query city_name country_code) = RaisesTimeout"
    using t [rule_format, of 0] t [rule_format, of 1] t [rule_format, of 2] by simp_all
  then have f: "fetch_once net city_name country_code n = (Inl Timeout, Suc n)"
     "fetch_once net city_name country_code (Suc n) = (Inl Timeout, Suc (Suc n))"
     "fetch_once net city_name country_code (Suc (Suc n)) = (Inl Timeout, Suc (Suc (Suc n)))"
    by (simp_all add: fetch_once_def)
  show "fetch_weather_by_city net city_name country_code n = (Inl Timeout, n + 3)"
    by (simp add: fetch_weather_by_city_def retry_on_failure_def MAX_RETRIES_def f)
qed


theorem retry_on_failure_policy_witness:
  "fetch_weather_by_city always_404 (Some ''London'') (Some ''GB'') 0 = (Inr PNone, 1)
   \<and> fetch_weather_by_city always_timeout (Some ''London'') (Some ''GB'') 0 = (Inl Timeout, 3)
   \<and> retry_on_failure 3 (fetch_once always_timeout (Some ''London'') (Some ''GB'')) 0
       = (Inl Timeout, 3)
   \<and> retry_on_failure 3 (fetch_once timeout_then_ok (Some ''London'') (Some ''GB'')) 0
       = (Inr (PDict (sample_raw_weather_data (PFloat 15.5) (PInt 65))), 2)"
proof -
  let ?f = "fetch_once always_timeout (Some ''London'') (Some ''GB'')"
  let ?g = "fetch_once timeout_then_ok (Some ''London'') (Some ''GB'')"
  have f: "?f n = (Inl Timeout, Suc n)" for n
    by (simp add: fetch_once_def always_timeout_def)
  have g: "?g 0 = (Inl Timeout, 1)"
    "?g (Suc 0) = (Inr (PDict (sample_raw_weather_data (PFloat 15.5) (PInt 65))), 2)"
    by (simp_all add: fetch_once_def timeout_then_ok_def)
  have sf: "state_after ?f 2 0 = 2" "\<forall>i<2. \<exists>e. fst (?f (state_after ?f i 0)) = Inl e"
    by (simp_all add: f numeral_2_eq_2 less_Suc_eq)
  have sg: "state_after ?g 1 0 = 1" "\<forall>i<1. \<exists>e. fst (?g (state_after ?g i 0)) = Inl e"
    by (simp_all add: g)
  have 1: "fetch_weather_by_city always_404 (Some ''London'') (Some ''GB'') 0 = (Inr PNone, 1)"
    using retry_on_failure_policy [of 0 3 ?f 0 always_404 0 "Some ''London''" "Some ''GB''"]
    by (simp add: always_404_def)
  have 2: "fetch_weather_by_city always_timeout (Some ''London'') (Some ''GB'') 0
      = (Inl Timeout, 3)"
    using retry_on_failure_policy [of 0 3 ?f 0 always_timeout 0 "Some ''London''" "Some ''GB''"]
    by (simp add: always_timeout_def)
  have 3: "retry_on_failure 3 ?f 0 = (Inl Timeout, 3)"
    using retry_on_failure_policy [of 2 3 ?f 0 always_404 0 "Some ''London''" "Some ''GB''"] sf
    by (simp add: f)
  have 4: "retry_on_failure 3 ?g 0
      = (Inr (PDict (sample_raw_weather_data (PFloat 15.5) (PInt 65))), 2)"
    using retry_on_failure_policy [of 1 3 ?g 0 always_404 0 "Some ''London''" "Some ''GB''"] sg
    by (simp add: g)
  show ?thesis using 1 2 3 4 by blast
qed

section \<open>Fetching a list of cities\<close>

lemma fetch_loop_survivors:
  "fst (fetch_loop net cs weather_data n)
     = weather_data @ survivors (city_results net cs n)"
proof (induction cs arbitrary: weather_data n)
  case Nil
  then show ?case by (simp add: survivors_def)
next
  case (Cons city rest)
  show ?case
  proof (cases "fetch_weather_by_city net (map_of city ''name'') (map_of city ''country'') n")
    case (Pair r n')
    then show ?thesis
      using Cons.IH by (cases r) (simp_all add: survivors_def)
  qed
qed

lemma length_city_results: "length (city_results net cs n) = length cs"
  by (induction cs arbitrary: n) (auto split: prod.splits)

lemma length_survivors:
  "length (survivors rs) + length (filter (\<lambda>r. \<not> survives r) rs) = length rs"
  unfolding survivors_def length_map using sum_length_filter_compl by blast

text \<open>
  C5, as the code has it. \<open>fetch_weather_for_cities\<close> returns the values of the fetches that
  survive, in the order of the city list: a fetch that raised, returned \<open>None\<close> or returned
  another value that Python takes for false (an empty object, say) is left out, and the
  cities after it are still fetched. With three cities of which exactly one does not
  survive, two records are returned.
\<close>

theorem fetch_weather_for_cities_survivors:
  "fst (fetch_weather_for_cities net cs n) = survivors (city_results net cs n)
   \<and> (length cs = 3
        \<and> length (filter (\<lambda>r. \<not> survives r) (city_results net cs n)) = 1
      \<longrightarrow> length (fst (fetch_weather_for_cities net cs n)) = 2)"
proof -
  have eq: "fst (fetch_weather_for_cities net cs n) = survivors (city_results net cs n)"
    by (simp add: fetch_weather_for_cities_def fetch_loop_survivors)
  show ?thesis
    unfolding eq
    using length_survivors [of "city_results net cs n"] length_city_results [of net cs n]
    by simp
qed

text \<open>
  C5 as stated fails: a response whose body is the empty object is a fetch that succeeded
  with a value other than \<open>None\<close>, and \<open>if data:\<close> leaves it out.
\<close>

theorem fetch_weather_for_cities_drops_empty_object:
  "fst (fetch_weather_by_city empty_body (map_of london ''name'') (map_of london ''country'') 0)
     = Inr (PDict [])
   \<and> PDict [] \<noteq> PNone
   \<and> fst (fetch_weather_for_cities empty_body [london] 0) = []"
  by (simp add: fetch_weather_for_cities_def fetch_weather_by_city_def retry_on_failure_def
      MAX_RETRIES_def fetch_once_def empty_body_def london_def)


lemma fetch_one_step:
  "fetch_once net a b n = (Inr v, n') \<Longrightarrow> fetch_weather_by_city net a b n = (Inr v, n')"
  by (simp add: fetch_weather_by_city_def retry_on_failure_def MAX_RETRIES_def)

theorem fetch_weather_for_cities_survivors_witness:
  "fst (fetch_weather_for_cities second_fails [london, paris, tokyo] 0)
     = [PDict (sample_raw_weather_data (PFloat 15.5) (PInt 65)),
        PDict (sample_raw_weather_data (PFloat 21) (PInt 40))]
   \<and> length (fst (fetch_weather_for_cities second_fails [london, paris, tokyo] 0)) = 2"
proof -
  have r: "city_results second_fails [london, paris, tokyo] 0
      = [Inr (PDict (sample_raw_weather_data (PFloat 15.5) (PInt 65))), Inr PNone,
         Inr (PDict (sample_raw_weather_data (PFloat 21) (PInt 40)))]"
    by (simp add: fetch_one_step fetch_once_def second_fails_def)
  have t: "sample_raw_weather_data t h \<noteq> []" for t h
    by (simp add: sample_raw_weather_data_def)
  show ?thesis
    using fetch_weather_for_cities_survivors [of second_fails "[london, paris, tokyo]" 0, unfolded r]
    by (simp add: t survivors_def)
qed

section \<open>Facts about the store\<close>

lemma bind_params_Inr:
  "bind_params cs d = Inr row \<Longrightarrow>
     map fst row = cs \<and> (\<forall>c. dget row c = (if c \<in> set cs then dget d c else None))
     \<and> (\<forall>c \<in> set cs. dget d c \<noteq> None)"
proof (induction cs arbitrary: row)
  case Nil
  then show ?case by (simp add: dget_def)
next
  case (Cons c cs)
  from Cons.prems obtain v rest where v: "dget d c = Some v"
    and rest: "bind_params cs d = Inr rest" and row: "row = (c, v) # rest"
    by (auto split: option.splits sum.splits simp: bindE_def)
  from Cons.IH [OF rest] show ?case
    using v row by (auto simp: dget_def)
qed

lemma bind_params_present:
  "(\<forall>c \<in> set cs. dget d c \<noteq> None) \<Longrightarrow> \<exists>row. bind_params cs d = Inr row"
  by (induction cs) auto

lemma bind_params_cong:
  "(\<forall>c \<in> set cs. dget d c = dget d' c) \<Longrightarrow> bind_params cs d = bind_params cs d'"
  by (induction cs) (auto split: option.splits)

lemma dget_dpop: "dget (dpop k d) c = (if c = k then None else dget d c)"
  by (induction d) (auto simp: dget_def dpop_def)

lemma dget_dmerge:
  "dget (dmerge a b) c = (case dget b c of Some v \<Rightarrow> Some v | None \<Rightarrow> dget a c)"
proof -
  have 1: "map_of b c = None \<longleftrightarrow> c \<notin> set (map fst b)"
    by (simp add: map_of_eq_None_iff)
  have 2: "c \<notin> set (map fst b) \<Longrightarrow> map_of (filter (\<lambda>kv. fst kv \<notin> set (map fst b)) a) c = map_of a c"
    by (induction a) auto
  show ?thesis
    using 1 2 by (auto simp: dget_def dmerge_def map_add_def split: option.splits)
qed

lemma find_append:
  "find P (xs @ ys) = (case find P xs of None \<Rightarrow> find P ys | Some x \<Rightarrow> Some x)"
  by (induction xs) auto

lemma load_city_found:
  assumes "\<not> fault (connects s)" and "dget d ''city_name'' = Some name"
    and "dget d ''country_code'' = Some country"
    and "find (city_matches name country) (cities s) = Some row"
  shows "load_city fault (PDict d) s = (PInt (fst row), s\<lparr>connects := Suc (connects s)\<rparr>)"
  using assms by (simp add: load_city_def load_city_body_def Let_def)

lemma load_city_new:
  assumes "\<not> fault (connects s)" and "dget d ''city_name'' = Some name"
    and "dget d ''country_code'' = Some country"
    and "find (city_matches name country) (cities s) = None"
    and "bind_params city_columns d = Inr columns"
  shows "load_city fault (PDict d) s
    = (PInt (city_id_seq s),
       s\<lparr>connects := Suc (connects s), cities := cities s @ [(city_id_seq s, columns)],
         city_id_seq := city_id_seq s + 1\<rparr>)"
  using assms by (simp add: load_city_def load_city_body_def Let_def)


lemma find_filter_length:
  "find P xs = Some x \<Longrightarrow> 1 \<le> length (filter P xs)"
  "find P xs = None \<Longrightarrow> filter P xs = []"
  by (induction xs) (auto split: if_splits)

lemma load_city_twice:
  assumes nf: "\<not> fault (connects s)" "\<not> fault (Suc (connects s))"
    and name: "dget d ''city_name'' = Some name" "name \<noteq> PNone"
    and country: "dget d ''country_code'' = Some country" "country \<noteq> PNone"
    and cols: "\<forall>c \<in> set city_columns. dget d c \<noteq> None"
  shows "case load_city fault (PDict d) s of (id1, s1) \<Rightarrow>
           case load_city fault (PDict d) s1 of (id2, s2) \<Rightarrow>
             id1 = id2 \<and> id1 \<noteq> PNone \<and> cities s2 = cities s1
             \<and> length (filter (city_matches name country) (cities s2))
                = max 1 (length (filter (city_matches name country) (cities s)))"
proof (cases "find (city_matches name country) (cities s)")
  case (Some row)
  let ?s1 = "s\<lparr>connects := Suc (connects s)\<rparr>"
  have 1: "load_city fault (PDict d) s = (PInt (fst row), ?s1)"
    using load_city_found [of fault s d name country row] nf name country Some by simp
  have 2: "load_city fault (PDict d) ?s1 = (PInt (fst row), ?s1\<lparr>connects := Suc (connects ?s1)\<rparr>)"
    using load_city_found [of fault ?s1 d name country row] nf name country Some by simp
  show ?thesis
    using find_filter_length(1) [OF Some] by (simp add: 1 2)
next
  case None
  from bind_params_present [OF cols] obtain columns
    where columns: "bind_params city_columns d = Inr columns" ..
  let ?new = "(city_id_seq s, columns)"
  let ?s1 = "s\<lparr>connects := Suc (connects s), cities := cities s @ [?new],
         city_id_seq := city_id_seq s + 1\<rparr>"
  have 1: "load_city fault (PDict d) s = (PInt (city_id_seq s), ?s1)"
    using load_city_new [of fault s d name country columns] nf name country None columns
    by simp
  have m: "city_matches name country ?new"
    using bind_params_Inr [OF columns] name country
    by (simp add: city_matches_def sql_eq_def city_columns_def)
  have f: "find (city_matches name country) (cities ?s1) = Some ?new"
    using None m by (simp add: find_append)
  have 2: "load_city fault (PDict d) ?s1 = (PInt (fst ?new), ?s1\<lparr>connects := Suc (connects ?s1)\<rparr>)"
    using load_city_found [of fault ?s1 d name country ?new] nf name country f by simp
  show ?thesis
    using find_filter_length(2) [OF None] m by (simp add: 1 2)
qed



lemma load_measurement_row:
  assumes "\<not> fault (connects s)" and "measurement_params m cid kid = Inr data"
    and "bind_params measurement_columns data = Inr row"
  shows "load_measurement fault m cid kid s
    = (True, insert_measurement row (s\<lparr>connects := Suc (connects s)\<rparr>))"
  using assms by (simp add: load_measurement_def load_measurement_body_def Let_def)

lemma insert_measurement_conflict:
  "list_ex (conflicts row) (weather_measurements s) \<Longrightarrow> insert_measurement row s = s"
  by (simp add: insert_measurement_def)

lemma insert_measurement_connects [simp]:
  "connects (insert_measurement row s) = connects s"
  by (simp add: insert_measurement_def)

lemma insert_measurement_twice:
  assumes "sql_eq (dget row ''city_id'') (dget row ''city_id'')"
    and "sql_eq (dget row ''measurement_timestamp'') (dget row ''measurement_timestamp'')"
  shows "list_ex (conflicts row) (weather_measurements (insert_measurement row s))"
  using assms by (auto simp: insert_measurement_def conflicts_def list_ex_iff)

lemma measurement_columns_row:
  assumes "bind_params measurement_columns data = Inr row"
  shows "dget row ''city_id'' \<noteq> None" "dget row ''measurement_timestamp'' \<noteq> None"
  using bind_params_Inr [OF assms] by (simp_all add: measurement_columns_def)

lemma load_measurement_twice:
  assumes nf: "\<not> fault (connects s)" "\<not> fault (Suc (connects s))"
    and data: "measurement_params m cid kid = Inr data"
    and row: "bind_params measurement_columns data = Inr row"
    and nn: "dget row ''city_id'' \<noteq> Some PNone"
      "dget row ''measurement_timestamp'' \<noteq> Some PNone"
  shows "case load_measurement fault m cid kid s of (ok1, s1) \<Rightarrow>
           case load_measurement fault m cid kid s1 of (ok2, s2) \<Rightarrow>
             ok1 \<and> ok2 \<and> weather_measurements s2 = weather_measurements s1"
proof -
  let ?s0 = "s\<lparr>connects := Suc (connects s)\<rparr>"
  let ?s1 = "insert_measurement row ?s0"
  have 1: "load_measurement fault m cid kid s = (True, ?s1)"
    using load_measurement_row [of fault s m cid kid data row] nf data row by simp
  have c: "list_ex (conflicts row) (weather_measurements ?s1)"
    using measurement_columns_row [OF row] nn
    by (intro insert_measurement_twice) (simp_all add: sql_eq_def)
  have c': "list_ex (conflicts row) (weather_measurements (?s1\<lparr>connects := Suc (connects ?s1)\<rparr>))"
    using c by simp
  have 2: "load_measurement fault m cid kid ?s1
     = (True, ?s1\<lparr>connects := Suc (connects ?s1)\<rparr>)"
    using load_measurement_row [of fault ?s1 m cid kid data row] nf data row
      insert_measurement_conflict [OF c']
    by simp
  show ?thesis
    by (simp add: 1 2)
qed

section \<open>Idempotent upserts\<close>

text \<open>
  C2. Without a fault of the data layer, \<open>load_city\<close> called twice with the same city
  (name and country not null, the five columns present) returns the same identifier both
  times, the second call leaves the table as it is, and the table holds one row for the key
  if it held none before. \<open>load_measurement\<close> on a pair (city_id, measurement_timestamp) that
  is in the table returns \<open>True\<close> and changes no row; loading a measurement twice stores it
  once.
\<close>

theorem upserts_idempotent:
  "(\<not> fault (connects s) \<and> \<not> fault (Suc (connects s))
      \<and> dget d ''city_name'' = Some name \<and> name \<noteq> PNone
      \<and> dget d ''country_code'' = Some country \<and> country \<noteq> PNone
      \<and> (\<forall>c \<in> set city_columns. dget d c \<noteq> None)
    \<longrightarrow> (case load_city fault (PDict d) s of (id1, s1) \<Rightarrow>
           case load_city fault (PDict d) s1 of (id2, s2) \<Rightarrow>
             id1 = id2 \<and> id1 \<noteq> PNone \<and> cities s2 = cities s1
             \<and> length (filter (city_matches name country) (cities s2))
                = max 1 (length (filter (city_matches name country) (cities s)))))
   \<and> (\<not> fault (connects s) \<and> measurement_params m cid kid = Inr data
        \<and> bind_params measurement_columns data = Inr row
        \<and> list_ex (conflicts row) (weather_measurements s)
    \<longrightarrow> load_measurement fault m cid kid s = (True, s\<lparr>connects := Suc (connects s)\<rparr>))
   \<and> (\<not> fault (connects s) \<and> \<not> fault (Suc (connects s))
        \<and> measurement_params m cid kid = Inr data
        \<and> bind_params measurement_columns data = Inr row
        \<and> dget row ''city_id'' \<noteq> Some PNone
        \<and> dget row ''measurement_timestamp'' \<noteq> Some PNone
    \<longrightarrow> (case load_measurement fault m cid kid s of (ok1, s1) \<Rightarrow>
           case load_measurement fault m cid kid s1 of (ok2, s2) \<Rightarrow>
             ok1 \<and> ok2 \<and> weather_measurements s2 = weather_measurements s1))"
proof (intro conjI impI)
  assume a: "\<not> fault (connects s) \<and> \<not> fault (Suc (connects s))
      \<and> dget d ''city_name'' = Some name \<and> name \<noteq> PNone
      \<and> dget d ''country_code'' = Some country \<and> country \<noteq> PNone
      \<and> (\<forall>c \<in> set city_columns. dget d c \<noteq> None)"
  show "case load_city fault (PDict d) s of (id1, s1) \<Rightarrow>
           case load_city fault (PDict d) s1 of (id2, s2) \<Rightarrow>
             id1 = id2 \<and> id1 \<noteq> PNone \<and> cities s2 = cities s1
             \<and> length (filter (city_matches name country) (cities s2))
                = max 1 (length (filter (city_matches name country) (cities s)))"
    by (rule load_city_twice [of fault s d name country]) (use a in blast)+
next
  assume a: "\<not> fault (connects s) \<and> measurement_params m cid kid = Inr data
        \<and> bind_params measurement_columns data = Inr row
        \<and> list_ex (conflicts row) (weather_measurements s)"
  then have "list_ex (conflicts row)
      (weather_measurements (s\<lparr>connects := Suc (connects s)\<rparr>))"
    by simp
  then show "load_measurement fault m cid kid s = (True, s\<lparr>connects := Suc (connects s)\<rparr>)"
    using a load_measurement_row [of fault s m cid kid data row]
    by (simp add: insert_measurement_conflict)
next
  assume a: "\<not> fault (connects s) \<and> \<not> fault (Suc (connects s))
        \<and> measurement_params m cid kid = Inr data
        \<and> bind_params measurement_columns data = Inr row
        \<and> dget row ''city_id'' \<noteq> Some PNone
        \<and> dget row ''measurement_timestamp'' \<noteq> Some PNone"
  show "case load_measurement fault m cid kid s of (ok1, s1) \<Rightarrow>
           case load_measurement fault m cid kid s1 of (ok2, s2) \<Rightarrow>
             ok1 \<and> ok2 \<and> weather_measurements s2 = weather_measurements s1"
    by (rule load_measurement_twice [of fault s m cid kid data row]) (use a in blast)+
qed


lemma sample_measurement_params:
  "measurement_params (PDict (sample_measurement t h)) (PInt 1) (PInt 1)
     = Inr (dpop ''api_call_timestamp''
              (dmerge [(''city_id'', PInt 1), (''condition_id'', PInt 1)]
                 (sample_measurement t h)))"
  by (simp add: measurement_params_def)

lemma sample_measurement_row:
  "bind_params measurement_columns
     (dpop ''api_call_timestamp''
        (dmerge [(''city_id'', PInt 1), (''condition_id'', PInt 1)] (sample_measurement t h)))
   = Inr (sample_row t h)"
  by (simp add: measurement_columns_def dpop_def dmerge_def dget_def sample_measurement_def
      sample_row_def)


theorem upserts_idempotent_witness:
  "(case load_city no_fault (PDict sample_city) empty_db of (id1, s1) \<Rightarrow>
      case load_city no_fault (PDict sample_city) s1 of (id2, s2) \<Rightarrow>
        id1 = id2 \<and> id1 \<noteq> PNone \<and> cities s2 = cities s1
        \<and> length (filter (city_matches (PStr ''London'') (PStr ''GB'')) (cities s2)) = 1)
   \<and> load_measurement no_fault (PDict (sample_measurement (PFloat 15.5) (PInt 65)))
        (PInt 1) (PInt 1)
        (empty_db\<lparr>weather_measurements := [sample_row (PFloat 3) (PInt 50)]\<rparr>)
      = (True, empty_db\<lparr>weather_measurements := [sample_row (PFloat 3) (PInt 50)],
                 connects := 1\<rparr>)
   \<and> (case load_measurement no_fault (PDict (sample_measurement (PFloat 15.5) (PInt 65)))
            (PInt 1) (PInt 1) empty_db of (ok1, s1) \<Rightarrow>
        case load_measurement no_fault (PDict (sample_measurement (PFloat 15.5) (PInt 65)))
            (PInt 1) (PInt 1) s1 of (ok2, s2) \<Rightarrow>
          ok1 \<and> ok2 \<and> weather_measurements s2 = weather_measurements s1)"
proof -
  let ?m = "PDict (sample_measurement (PFloat 15.5) (PInt 65))"
  let ?data = "dpop ''api_call_timestamp''
      (dmerge [(''city_id'', PInt 1), (''condition_id'', PInt 1)]
         (sample_measurement (PFloat 15.5) (PInt 65)))"
  let ?row = "sample_row (PFloat 15.5) (PInt 65)"
  let ?s = "empty_db\<lparr>weather_measurements := [sample_row (PFloat 3) (PInt 50)]\<rparr>"
  have city: "dget sample_city ''city_name'' = Some (PStr ''London'')"
    "dget sample_city ''country_code'' = Some (PStr ''GB'')"
    "\<forall>c \<in> set city_columns. dget sample_city c \<noteq> None"
    by (simp_all add: sample_city_def dget_def city_columns_def)
  have nf: "\<not> no_fault i" for i
    by (simp add: no_fault_def)
  have empty: "filter (city_matches (PStr ''London'') (PStr ''GB'')) (cities empty_db) = []"
    by (simp add: empty_db_def)
  have conflict: "list_ex (conflicts ?row) (weather_measurements ?s)"
    by (simp add: conflicts_def sql_eq_def sample_row_def dget_def)
  have nn: "dget ?row ''city_id'' \<noteq> Some PNone"
    "dget ?row ''measurement_timestamp'' \<noteq> Some PNone"
    by (simp_all add: sample_row_def dget_def)
  have c: "connects empty_db = 0" "connects ?s = 0"
    by (simp_all add: empty_db_def)
  have 1: "case load_city no_fault (PDict sample_city) empty_db of (id1, s1) \<Rightarrow>
      case load_city no_fault (PDict sample_city) s1 of (id2, s2) \<Rightarrow>
        id1 = id2 \<and> id1 \<noteq> PNone \<and> cities s2 = cities s1
        \<and> length (filter (city_matches (PStr ''London'') (PStr ''GB'')) (cities s2))
           = max 1 (length (filter (city_matches (PStr ''London'') (PStr ''GB''))
                        (cities empty_db)))"
    by (rule upserts_idempotent [of no_fault empty_db sample_city "PStr ''London''"
          "PStr ''GB''" ?m "PInt 1" "PInt 1" ?data ?row, THEN conjunct1, THEN mp])
      (intro conjI nf city pyval.distinct)
  have 2: "load_measurement no_fault ?m (PInt 1) (PInt 1) ?s
      = (True, ?s\<lparr>connects := Suc (connects ?s)\<rparr>)"
    by (rule upserts_idempotent [of no_fault ?s sample_city "PStr ''London''" "PStr ''GB''"
          ?m "PInt 1" "PInt 1" ?data ?row, THEN conjunct2, THEN conjunct1, THEN mp])
      (intro conjI nf conflict sample_measurement_params sample_measurement_row)
  have 3: "case load_measurement no_fault ?m (PInt 1) (PInt 1) empty_db of (ok1, s1) \<Rightarrow>
        case load_measurement no_fault ?m (PInt 1) (PInt 1) s1 of (ok2, s2) \<Rightarrow>
          ok1 \<and> ok2 \<and> weather_measurements s2 = weather_measurements s1"
    by (rule upserts_idempotent [of no_fault empty_db sample_city "PStr ''London''"
          "PStr ''GB''" ?m "PInt 1" "PInt 1" ?data ?row, THEN conjunct2, THEN conjunct2, THEN mp])
      (intro conjI nf nn sample_measurement_params sample_measurement_row)
  show ?thesis
    using 1 2 3 by (simp add: c empty)
qed

section \<open>Loading one record and a batch\<close>

lemma load_city_frame:
  "load_city fault c s = (cid, s1) \<Longrightarrow>
     weather_conditions s1 = weather_conditions s
     \<and> weather_measurements s1 = weather_measurements s
     \<and> connects s1 = Suc (connects s)"
  by (auto simp: load_city_def load_city_body_def Let_def bindE_def
      split: if_splits sum.splits option.splits pyval.splits pyexn.splits)

lemma load_weather_condition_frame:
  "load_weather_condition fault k s = (kid, s1) \<Longrightarrow>
     cities s1 = cities s
     \<and> weather_measurements s1 = weather_measurements s
     \<and> connects s1 = Suc (connects s)"
  by (auto simp: load_weather_condition_def load_weather_condition_body_def Let_def bindE_def
      split: if_splits sum.splits option.splits pyval.splits pyexn.splits)

lemma load_city_truthy_name:
  "load_city fault c s = (cid, s1) \<Longrightarrow> truthy cid \<Longrightarrow> \<exists>name. subscript c ''city_name'' = Inr name"
  by (auto simp: load_city_def load_city_body_def Let_def bindE_def
      split: if_splits sum.splits pyexn.splits)

lemma load_loop_counts:
  "fst (load_loop fault xs a b s)
     = (a + length (filter id (record_results fault xs s)),
        b + length (filter Not (record_results fault xs s)))"
proof (induction xs arbitrary: a b s)
  case Nil
  then show ?case by simp
next
  case (Cons x xs)
  show ?case
  proof (cases "load_weather_record fault x s")
    case (Pair ok s')
    then show ?thesis
      using Cons.IH by simp
  qed
qed

lemma length_record_results: "length (record_results fault xs s) = length xs"
  by (induction xs arbitrary: s) (auto split: prod.splits)







section \<open>The capture timestamp is not stored\<close>

text \<open>
  C10. The dictionary bound to the insert statement has no \<open>api_call_timestamp\<close>; two
  measurement dictionaries that differ at most in that key give the same result and the
  same store; every row that \<open>load_measurement\<close> adds has exactly the thirteen columns of
  the statement (two foreign keys, ten measured fields, the measurement timestamp).
\<close>

theorem load_measurement_drops_api_call_timestamp:
  "(measurement_params (PDict m) cid kid = Inr data
      \<longrightarrow> dget data ''api_call_timestamp'' = None)
   \<and> ((\<forall>k. k \<noteq> ''api_call_timestamp'' \<longrightarrow> dget m k = dget m' k)
      \<longrightarrow> load_measurement fault (PDict m) cid kid s
          = load_measurement fault (PDict m') cid kid s)
   \<and> (\<forall>row \<in> set (weather_measurements (snd (load_measurement fault mv cid kid s))).
         row \<in> set (weather_measurements s) \<or> map fst row = measurement_columns)
   \<and> length measurement_columns = 13
   \<and> ''api_call_timestamp'' \<notin> set measurement_columns"
proof (intro conjI impI ballI)
  assume "measurement_params (PDict m) cid kid = Inr data"
  then show "dget data ''api_call_timestamp'' = None"
    by (auto simp: measurement_params_def dget_dpop)
next
  assume eq: "\<forall>k. k \<noteq> ''api_call_timestamp'' \<longrightarrow> dget m k = dget m' k"
  let ?base = "[(''city_id'', cid), (''condition_id'', kid)]"
  have "bind_params measurement_columns (dpop ''api_call_timestamp'' (dmerge ?base m))
      = bind_params measurement_columns (dpop ''api_call_timestamp'' (dmerge ?base m'))"
    by (rule bind_params_cong) (use eq in \<open>simp add: dget_dpop dget_dmerge\<close>)
  then have "load_measurement_body (PDict m) cid kid s'
      = load_measurement_body (PDict m') cid kid s'" for s'
    by (simp add: load_measurement_body_def measurement_params_def)
  then show "load_measurement fault (PDict m) cid kid s
      = load_measurement fault (PDict m') cid kid s"
    by (simp add: load_measurement_def Let_def)
next
  fix row
  assume "row \<in> set (weather_measurements (snd (load_measurement fault mv cid kid s)))"
  then have "row \<in> set (weather_measurements s)
      \<or> (\<exists>data. bind_params measurement_columns data = Inr row)"
    by (auto simp: load_measurement_def load_measurement_body_def Let_def bindE_def
        insert_measurement_def split: if_splits sum.splits pyexn.splits)
  then show "row \<in> set (weather_measurements s) \<or> map fst row = measurement_columns"
    using bind_params_Inr by blast
next
  show "length measurement_columns = 13"
    by (simp add: measurement_columns_def)
  show "''api_call_timestamp'' \<notin> set measurement_columns"
    by (simp add: measurement_columns_def)
qed

theorem load_measurement_drops_api_call_timestamp_witness:
  "dget (dpop ''api_call_timestamp''
          (dmerge [(''city_id'', PInt 1), (''condition_id'', PInt 1)]
             (sample_measurement (PFloat 15.5) (PInt 65)))) ''api_call_timestamp'' = None
   \<and> load_measurement no_fault (PDict (sample_measurement (PFloat 15.5) (PInt 65)))
        (PInt 1) (PInt 1) empty_db
      = load_measurement no_fault
          (PDict (dpop ''api_call_timestamp'' (sample_measurement (PFloat 15.5) (PInt 65))))
          (PInt 1) (PInt 1) empty_db
   \<and> map fst (sample_row (PFloat 15.5) (PInt 65)) = measurement_columns"
proof -
  let ?m = "sample_measurement (PFloat 15.5) (PInt 65)"
  let ?m' = "dpop ''api_call_timestamp'' ?m"
  let ?data = "dpop ''api_call_timestamp''
      (dmerge [(''city_id'', PInt 1), (''condition_id'', PInt 1)] ?m)"
  let ?row = "sample_row (PFloat 15.5) (PInt 65)"
  note inst = load_measurement_drops_api_call_timestamp
      [of ?m "PInt 1" "PInt 1" ?data ?m' no_fault empty_db "PDict ?m"]
  have same: "\<forall>k. k \<noteq> ''api_call_timestamp'' \<longrightarrow> dget ?m k = dget ?m' k"
    by (simp add: dget_dpop)
  have stored: "weather_measurements (snd (load_measurement no_fault (PDict ?m) (PInt 1)
      (PInt 1) empty_db)) = [?row]"
    by code_simp
  have old: "weather_measurements empty_db = []"
    by (simp add: empty_db_def)
  have 1: "dget ?data ''api_call_timestamp'' = None"
    by (rule inst [THEN conjunct1, THEN mp]) (rule sample_measurement_params)
  have 2: "load_measurement no_fault (PDict ?m) (PInt 1) (PInt 1) empty_db
      = load_measurement no_fault (PDict ?m') (PInt 1) (PInt 1) empty_db"
    by (rule inst [THEN conjunct2, THEN conjunct1, THEN mp]) (rule same)
  have 3: "map fst ?row = measurement_columns"
    using inst [THEN conjunct2, THEN conjunct2, THEN conjunct1, unfolded stored old]
    by simp
  show ?thesis
    using 1 2 3 by blast
qed

section \<open>The first weather entry and the optional groups\<close>

lemma bindE_Inr_iff: "bindE m f = Inr y \<longleftrightarrow> (\<exists>x. m = Inr x \<and> f x = Inr y)"
  by (cases m) simp_all

lemma dget_Nil [simp]: "dget [] k = None"
  by (simp add: dget_def)

lemma transform_shadow_weather:
  assumes "dget d ''weather'' = Some (PList (w # ws))"
  shows "transform_body now ((''weather'', PList [w]) # d) = transform_body now d"
proof -
  let ?d' = "(''weather'', PList [w]) # d"
  have other: "k \<noteq> ''weather'' \<Longrightarrow> dget ?d' k = dget d k" for k
    by (simp add: dget_def)
  have w': "dget ?d' ''weather'' = Some (PList [w])"
    by (simp add: dget_def)
  have "validate_weather_data ?d' = validate_weather_data d"
    by (simp add: validate_weather_data_def other)
  moreover have "city_of ?d' = city_of d"
    by (simp add: city_of_def other)
  moreover have "condition_of ?d' = condition_of d"
    by (simp add: condition_of_def w' assms)
  moreover have "measurement_of now ?d' = measurement_of now d"
    by (simp add: measurement_of_def other)
  ultimately show ?thesis
    by (simp add: transform_body_def)
qed

lemma condition_of_first:
  assumes "dget d ''weather'' = Some (PList (w # ws))" and "condition_of d = Inr c"
  shows "\<exists>a b i. subscript w ''main'' = Inr a \<and> subscript w ''description'' = Inr b
      \<and> subscript w ''icon'' = Inr i
      \<and> c = PDict [(''main_condition'', a), (''description'', b), (''icon_code'', i)]"
  using assms by (auto simp: condition_of_def bindE_Inr_iff)

lemma measurement_of_optional:
  assumes "measurement_of now d = Inr mm"
  shows "(dget d ''visibility'' = None \<longrightarrow> subscript mm ''visibility_meters'' = Inr PNone)
    \<and> (dget d ''wind'' = None \<longrightarrow> subscript mm ''wind_speed_mps'' = Inr PNone
          \<and> subscript mm ''wind_direction_degrees'' = Inr PNone)
    \<and> (dget d ''clouds'' = None \<longrightarrow> subscript mm ''cloudiness_percent'' = Inr PNone)"
  using assms
  by (auto simp: measurement_of_def bindE_Inr_iff dget_def)


lemma transform_single_record_Some:
  "transform_single_record now (PDict d) = Some r \<longleftrightarrow> transform_body now d = Inr r"
  by (simp split: sum.splits pyexn.splits)


lemma transform_body_sections:
  "transform_body now d = Inr r \<Longrightarrow>
     \<exists>c k mm. city_of d = Inr c \<and> condition_of d = Inr k \<and> measurement_of now d = Inr mm
       \<and> r = PDict [(''city'', c), (''condition'', k), (''measurement'', mm)]"
  by (auto simp: transform_body_def bindE_Inr_iff)

lemma transform_sections_subscript:
  "subscript (PDict [(''city'', c), (''condition'', k), (''measurement'', mm)]) ''condition''
     = Inr k"
  "subscript (PDict [(''city'', c), (''condition'', k), (''measurement'', mm)]) ''measurement''
     = Inr mm"
  by (simp_all add: dget_def)


lemma transform_condition_first:
  assumes "dget d ''weather'' = Some (PList (w # ws))"
    and "transform_single_record now (PDict d) = Some r"
  shows "\<exists>a b i. subscript w ''main'' = Inr a \<and> subscript w ''description'' = Inr b
            \<and> subscript w ''icon'' = Inr i
            \<and> subscript r ''condition''
                = Inr (PDict [(''main_condition'', a), (''description'', b),
                              (''icon_code'', i)])"
proof -
  have "transform_body now d = Inr r"
    using assms(2) by (simp only: transform_single_record_Some)
  from transform_body_sections [OF this] obtain c k mm
    where k: "condition_of d = Inr k"
      and r: "r = PDict [(''city'', c), (''condition'', k), (''measurement'', mm)]"
    by blast
  from condition_of_first [OF assms(1) k] show ?thesis
    unfolding r transform_sections_subscript by blast
qed

lemma transform_optional_null:
  assumes "transform_single_record now (PDict d) = Some r"
  shows "\<exists>mm. subscript r ''measurement'' = Inr mm
            \<and> (dget d ''visibility'' = None
                 \<longrightarrow> subscript mm ''visibility_meters'' = Inr PNone)
            \<and> (dget d ''wind'' = None
                 \<longrightarrow> subscript mm ''wind_speed_mps'' = Inr PNone
                     \<and> subscript mm ''wind_direction_degrees'' = Inr PNone)
            \<and> (dget d ''clouds'' = None
                 \<longrightarrow> subscript mm ''cloudiness_percent'' = Inr PNone)"
proof -
  have "transform_body now d = Inr r"
    using assms by (simp only: transform_single_record_Some)
  from transform_body_sections [OF this] obtain c k mm
    where mm: "measurement_of now d = Inr mm"
      and r: "r = PDict [(''city'', c), (''condition'', k), (''measurement'', mm)]"
    by blast
  show ?thesis
    unfolding r transform_sections_subscript
    using measurement_of_optional [OF mm] by (intro exI [of _ mm] conjI refl) simp_all
qed


lemma measurement_of_without_optional:
  assumes "dget d ''main'' = Some main_data"
    and "bindE (subscript main_data ''temp'') round2 = Inr temperature"
    and "bindE (subscript main_data ''feels_like'') round2 = Inr feels_like"
    and "bindE (subscript main_data ''temp_min'') round2 = Inr temp_min"
    and "bindE (subscript main_data ''temp_max'') round2 = Inr temp_max"
    and "subscript main_data ''pressure'' = Inr pressure"
    and "subscript main_data ''humidity'' = Inr humidity"
    and "bindE (subscript (PDict d) ''dt'') fromtimestamp = Inr stamp"
    and "dget d ''visibility'' = None" and "dget d ''wind'' = None"
    and "dget d ''clouds'' = None"
  shows "measurement_of now d = Inr (PDict
                 [(''temperature_celsius'', temperature),
                  (''feels_like_celsius'', feels_like),
                  (''temp_min_celsius'', temp_min),
                  (''temp_max_celsius'', temp_max),
                  (''pressure_hpa'', pressure),
                  (''humidity_percent'', humidity),
                  (''visibility_meters'', PNone),
                  (''wind_speed_mps'', PNone),
                  (''wind_direction_degrees'', PNone),
                  (''cloudiness_percent'', PNone),
                  (''measurement_timestamp'', stamp),
                  (''api_call_timestamp'', PDateTime now)])"
proof -
  have 1: "subscript (PDict d) ''main'' = Inr main_data"
    using assms(1) by simp
  have 2: "get_method (PDict d) ''wind'' (PDict []) = Inr (PDict [])"
    "get_method (PDict d) ''clouds'' (PDict []) = Inr (PDict [])"
    "get_method (PDict d) ''visibility'' PNone = Inr PNone"
    using assms(9-11) by simp_all
  have 3: "get_method (PDict []) k PNone = Inr PNone" for k
    by simp
  show ?thesis
    unfolding measurement_of_def 1 2 3 assms(2-8) bindE_simps ..
qed





section \<open>The outcome of a run\<close>

lemma run_etl_pipeline_success_iff:
  "fst (run_etl_pipeline cfg net fault clock s)
     = (config_validate cfg = Inr True \<and> engine_ok cfg \<and> \<not> fault (connects s)
        \<and> fst (fetch_weather_for_cities net (CITIES cfg) 0) \<noteq> []
        \<and> transform_multiple_records clock (fst (fetch_weather_for_cities net (CITIES cfg) 0))
            \<noteq> [])"
proof (cases "config_validate cfg = Inr True \<and> engine_ok cfg")
  case False
  then show ?thesis
    by (auto simp: run_etl_pipeline_def pipeline_body_def config_validate_def
        new_extractor_def new_loader_def split: if_splits)
next
  case True
  then have c: "config_validate cfg = Inr True" "new_extractor cfg = Inr ()"
    "new_loader cfg = Inr ()"
    by (auto simp: config_validate_def new_extractor_def new_loader_def split: if_splits)
  obtain raw n where f: "fetch_weather_for_cities net (CITIES cfg) 0 = (raw, n)"
    by (cases "fetch_weather_for_cities net (CITIES cfg) 0")
  obtain res s1 where l: "load_multiple_records fault (transform_multiple_records clock raw)
      (s\<lparr>connects := Suc (connects s)\<rparr>) = (res, s1)"
    by (metis surj_pair)
  show ?thesis
    using True
    by (simp add: run_etl_pipeline_def pipeline_body_def c test_connection_def f l Let_def)
qed



section \<open>Humidity out of range\<close>

text \<open>
  C1 does not hold of the code. A raw record with humidity 150 and every other field valid
  is transformed, although \<open>validate_transformed_data\<close> refuses the result;
  \<open>run_etl_pipeline\<close> never calls that check, passes the record to the loader and stores
  the measurement.
\<close>

theorem pipeline_loads_humidity_out_of_range:
  "transform_multiple_records fixed_clock
       [PDict (sample_raw_weather_data (PFloat 15.5) (PInt 150))]
     = [PDict (sample_transformed_data (PFloat 15.5) (PInt 150))]
   \<and> \<not> validate_transformed_data (PDict (sample_transformed_data (PFloat 15.5) (PInt 150)))
   \<and> fst (run_etl_pipeline london_config humid_body no_fault fixed_clock empty_db)
   \<and> weather_measurements
        (snd (run_etl_pipeline london_config humid_body no_fault fixed_clock empty_db))
      = [sample_row (PFloat 15.5) (PInt 150)]"
  by code_simp

end
